theory Spec2Isabelle
  imports Main "HOL-Library.Sublist"
begin

section \<open>JavaScript primitives used by the client\<close>

text \<open>
  \<^verbatim>\<open>Number.prototype.toString\<close> on a non-negative integer (an HTTP status, a
  \<^verbatim>\<open>Date.now()\<close> reading): the decimal digits, most significant first.
\<close>

definition digit :: "nat \<Rightarrow> char" where
  "digit d =
     (if d = 0 then CHR ''0'' else if d = 1 then CHR ''1'' else if d = 2 then CHR ''2''
      else if d = 3 then CHR ''3'' else if d = 4 then CHR ''4'' else if d = 5 then CHR ''5''
      else if d = 6 then CHR ''6'' else if d = 7 then CHR ''7'' else if d = 8 then CHR ''8''
      else CHR ''9'')"

fun toString :: "nat \<Rightarrow> string" where
  "toString n = (if n < 10 then [digit n] else toString (n div 10) @ [digit (n mod 10)])"

declare toString.simps [simp del]

text \<open>
  \<^verbatim>\<open>a || b\<close> on a possibly missing string: an absent value (\<^verbatim>\<open>undefined\<close>,
  \<^verbatim>\<open>null\<close>) and the empty string are falsy.
\<close>

definition truthy :: "string option \<Rightarrow> bool" where
  "truthy x = (case x of None \<Rightarrow> False | Some v \<Rightarrow> v \<noteq> [])"

definition or_else :: "string option \<Rightarrow> string \<Rightarrow> string" where
  "or_else x d = (case x of None \<Rightarrow> d | Some v \<Rightarrow> if v \<noteq> [] then v else d)"

text \<open>\<^verbatim>\<open>a ?? b\<close>: only \<^verbatim>\<open>null\<close> and \<^verbatim>\<open>undefined\<close> give way to the default.\<close>

definition nullish_else :: "'a option \<Rightarrow> 'a \<Rightarrow> 'a" where
  "nullish_else x d = (case x of None \<Rightarrow> d | Some v \<Rightarrow> v)"

text \<open>
  The ambient effects: the clock behind \<^verbatim>\<open>Date.now()\<close> and \<^verbatim>\<open>new Date()\<close>, the
  generator behind \<^verbatim>\<open>Math.random()\<close>, and the console. \<open>clock w k\<close> is what the
  \<open>k\<close>-th reading of the clock returns and \<open>random w k\<close> is the text of the \<open>k\<close>-th
  random number (\<^verbatim>\<open>Math.random().toString()\<close>); \<open>reads\<close> and \<open>draws\<close> count the
  readings made so far. A console entry is the pair of arguments of
  \<^verbatim>\<open>console.error(label, value)\<close>.
\<close>

record world =
  clock :: "nat \<Rightarrow> nat"
  reads :: nat
  random :: "nat \<Rightarrow> string"
  draws :: nat
  console :: "(string \<times> string) list"

definition Date_now :: "world \<Rightarrow> nat \<times> world" where
  "Date_now w = (clock w (reads w), w\<lparr>reads := Suc (reads w)\<rparr>)"

definition new_Date :: "world \<Rightarrow> nat \<times> world" where
  "new_Date w = (clock w (reads w), w\<lparr>reads := Suc (reads w)\<rparr>)"

definition Math_random_toString :: "world \<Rightarrow> string \<times> world" where
  "Math_random_toString w = (random w (draws w), w\<lparr>draws := Suc (draws w)\<rparr>)"

definition console_error :: "string \<Rightarrow> string \<Rightarrow> world \<Rightarrow> world" where
  "console_error label v w = w\<lparr>console := console w @ [(label, v)]\<rparr>"

section \<open>The network, as \<^verbatim>\<open>fetch\<close> sees it\<close>

text \<open>
  A request is the URL, the method, the headers and the object handed to
  \<^verbatim>\<open>JSON.stringify\<close> (its fields in insertion order; \<open>None\<close> for a request without a
  body). \<^verbatim>\<open>fetch\<close> either rejects (a network failure, with the error's text) or
  resolves to a response with a status and a body. Reading the body with
  \<^verbatim>\<open>res.json()\<close> either rejects (\<open>Unreadable\<close>, with the error's text: the body is
  not JSON, or the transfer broke off while the body was read) or resolves to the
  parsed value.
\<close>

record request =
  req_url :: string
  req_method :: string
  req_headers :: "(string \<times> string) list"
  req_body :: "(string \<times> string) list option"

datatype 'a body = Unreadable string | Parsed 'a

datatype 'a fetch_result = NetworkFailure string | Response nat "'a body"

text \<open>\<^verbatim>\<open>Response.ok\<close>: the status is in the range 200 to 299.\<close>

definition ok :: "nat \<Rightarrow> bool" where
  "ok status = (200 \<le> status \<and> status \<le> 299)"

text \<open>How an \<^verbatim>\<open>async\<close> function ends: its promise resolves to a value or rejects.\<close>

datatype 'a completion = Returned 'a | Thrown string

section \<open>The transport client (\<^verbatim>\<open>lib/api.ts\<close>)\<close>

text \<open>
  \<^verbatim>\<open>callChatAPI(message, conversationId, accountNumber?)\<close>. The optional account number
  is \<open>None\<close> when the caller leaves it out. The body gets \<^verbatim>\<open>account_number\<close> only
  under \<^verbatim>\<open>if (accountNumber)\<close>.
\<close>

definition chat_body :: "string \<Rightarrow> string \<Rightarrow> string option \<Rightarrow> (string \<times> string) list" where
  "chat_body message conversationId accountNumber =
     [(''conversation_id'', conversationId), (''message'', message)] @
     (case accountNumber of
        None \<Rightarrow> []
      | Some a \<Rightarrow> if truthy accountNumber then [(''account_number'', a)] else [])"

definition chat_request :: "string \<Rightarrow> string \<Rightarrow> string option \<Rightarrow> request" where
  "chat_request message conversationId accountNumber =
     \<lparr>req_url = ''/chat'', req_method = ''POST'',
      req_headers = [(''Content-Type'', ''application/json'')],
      req_body = Some (chat_body message conversationId accountNumber)\<rparr>"

text \<open>
  The \<^verbatim>\<open>try\<close> block awaits \<^verbatim>\<open>fetch\<close>, throws on a status that is not ok, and returns
  the promise of \<^verbatim>\<open>res.json()\<close> without awaiting it: a rejection of that promise is
  not caught by the \<^verbatim>\<open>catch\<close> block and reaches the caller. The \<^verbatim>\<open>catch\<close> block
  logs and returns \<^verbatim>\<open>null\<close>. The parsed value is \<open>None\<close> for the JSON text
  \<^verbatim>\<open>null\<close>.
\<close>

definition callChatAPI ::
  "(request \<Rightarrow> 'd option fetch_result) \<Rightarrow> string \<Rightarrow> string \<Rightarrow> string option \<Rightarrow> world
     \<Rightarrow> 'd option completion \<times> world" where
  "callChatAPI fetch message conversationId accountNumber w =
     (case fetch (chat_request message conversationId accountNumber) of
        NetworkFailure err \<Rightarrow> (Returned None, console_error ''Error sending message:'' err w)
      | Response status b \<Rightarrow>
          if \<not> ok status
          then (Returned None,
                console_error ''Error sending message:''
                  (''Error: Chat API error: '' @ toString status) w)
          else (case b of
                  Parsed v \<Rightarrow> (Returned v, w)
                | Unreadable err \<Rightarrow> (Thrown err, w)))"

definition customer_request :: "string \<Rightarrow> request" where
  "customer_request accountNumber =
     \<lparr>req_url = ''/customer/'' @ accountNumber, req_method = ''GET'',
      req_headers = [], req_body = None\<rparr>"

definition getCustomerInfo ::
  "(request \<Rightarrow> 'c option fetch_result) \<Rightarrow> string \<Rightarrow> world \<Rightarrow> 'c option completion \<times> world" where
  "getCustomerInfo fetch accountNumber w =
     (case fetch (customer_request accountNumber) of
        NetworkFailure err \<Rightarrow>
          (Returned None, console_error ''Error fetching customer info:'' err w)
      | Response status b \<Rightarrow>
          if \<not> ok status
          then (Returned None,
                console_error ''Error fetching customer info:''
                  (''Error: Customer API error: '' @ toString status) w)
          else (case b of
                  Parsed v \<Rightarrow> (Returned v, w)
                | Unreadable err \<Rightarrow> (Thrown err, w)))"

section \<open>The login form (\<^verbatim>\<open>CustomerLogin\<close>)\<close>

text \<open>
  The form's state. A character of a string stands for a UTF-16 code unit below 256.
  \<open>trim_latin1\<close> is \<^verbatim>\<open>String.prototype.trim\<close> on such strings: it strips the white
  space and line terminator code units of ECMAScript in that range, which are U+0009
  to U+000D, U+0020 and U+00A0.
\<close>

record login_form =
  form_accountNumber :: string
  form_isLoading :: bool
  form_error :: string

definition is_space :: "char \<Rightarrow> bool" where
  "is_space c =
     (c \<in> set [CHR 0x09, CHR 0x0A, CHR 0x0B, CHR 0x0C, CHR 0x0D, CHR 0x20, CHR 0xA0])"

definition trim_latin1 :: "string \<Rightarrow> string" where
  "trim_latin1 s = rev (dropWhile is_space (rev (dropWhile is_space s)))"

text \<open>
  \<^verbatim>\<open>CustomerLogin.handleLogin\<close>: the form after the handler has run, and the call of
  \<^verbatim>\<open>onLogin(accountNumber, customerData)\<close> it makes, if any. The first argument is
  the \<^verbatim>\<open>String.prototype.trim\<close> of the host, so that the model does not depend on how
  much of Unicode a string can hold. The \<^verbatim>\<open>finally\<close> block clears the loading flag
  on every path that entered the \<^verbatim>\<open>try\<close>. Here \<^verbatim>\<open>response.json()\<close> is awaited, so
  its rejection is caught.
\<close>

definition form_handleLogin ::
  "(string \<Rightarrow> string) \<Rightarrow> (request \<Rightarrow> 'c fetch_result) \<Rightarrow> login_form
     \<Rightarrow> login_form \<times> (string \<times> 'c) option" where
  "form_handleLogin trim fetch f =
     (if trim (form_accountNumber f) = []
      then (f\<lparr>form_error := ''Please enter your account number''\<rparr>, None)
      else
        (case fetch (customer_request (form_accountNumber f)) of
           Response status b \<Rightarrow>
             if \<not> ok status
             then (if status = 404
                   then (f\<lparr>form_isLoading := False,
                           form_error := ''Account number not found. Please check and try again.''\<rparr>,
                         None)
                   else (f\<lparr>form_isLoading := False,
                           form_error := ''Failed to load customer information. Please try again.''\<rparr>,
                         None))
             else (case b of
                     Parsed customerData \<Rightarrow>
                       (f\<lparr>form_isLoading := False, form_error := []\<rparr>,
                        Some (form_accountNumber f, customerData))
                   | Unreadable err \<Rightarrow>
                       (f\<lparr>form_isLoading := False,
                          form_error := ''Network error. Please check your connection and try again.''\<rparr>,
                        None))
         | NetworkFailure err \<Rightarrow>
             (f\<lparr>form_isLoading := False,
                form_error := ''Network error. Please check your connection and try again.''\<rparr>,
              None)))"

section \<open>The conversation state (\<^verbatim>\<open>app/page.tsx\<close>)\<close>

text \<open>
  The types of \<^verbatim>\<open>lib/types\<close> are not part of the sources at hand. A message and an
  event carry the fields the page reads and writes; an agent of the roster and a
  guardrail check are never inspected by the page and stay type parameters \<open>'a\<close> and
  \<open>'g\<close>. An optional field is \<open>None\<close> when it is \<^verbatim>\<open>undefined\<close> or \<^verbatim>\<open>null\<close>.
\<close>

datatype Role = User | Assistant

record Message =
  msg_id :: string
  content :: string
  role :: Role
  agent :: "string option"
  timestamp :: nat

text \<open>An event: its \<^verbatim>\<open>type\<close> tag, its other fields, and the optional time stamp.\<close>

record AgentEvent =
  ev_type :: string
  ev_fields :: "(string \<times> string) list"
  ev_timestamp :: "nat option"

text \<open>A message as the server sends it (\<^verbatim>\<open>m.content\<close>, \<^verbatim>\<open>m.agent\<close>).\<close>

record ResponseMessage =
  m_content :: string
  m_agent :: "string option"

text \<open>The body of a chat response, \<^verbatim>\<open>data\<close>; every field may be missing.\<close>

record ('a, 'g) ChatResponse =
  data_conversation_id :: "string option"
  data_current_agent :: "string option"
  data_context :: "(string \<times> string) list option"
  data_events :: "AgentEvent list option"
  data_agents :: "'a list option"
  data_guardrails :: "'g list option"
  data_messages :: "ResponseMessage list option"

text \<open>The customer record of \<^verbatim>\<open>GET /customer/{accountNumber}\<close>.\<close>

record Customer =
  name :: string
  account_number :: string
  email :: string

record CustomerInfo =
  customer :: Customer
  bookings :: "string list"

text \<open>
  The state of the \<^verbatim>\<open>Home\<close> component, one field for each \<^verbatim>\<open>useState\<close>. The
  current agent, the context and the conversation id are optional because the
  handlers can store \<^verbatim>\<open>undefined\<close> (or \<^verbatim>\<open>null\<close>) in them.
\<close>

record ('a, 'g) home =
  messages :: "Message list"
  events :: "AgentEvent list"
  agents :: "'a list"
  currentAgent :: "string option"
  guardrails :: "'g list"
  context_s :: "(string \<times> string) list option"
  conversationId :: "string option"
  isLoading :: bool
  isLoggedIn :: bool
  customerInfo :: "CustomerInfo option"
  accountNumber :: string

definition initial :: "('a, 'g) home" where
  "initial =
     \<lparr>messages = [], events = [], agents = [], currentAgent = Some [], guardrails = [],
      context_s = Some [], conversationId = None, isLoading = False, isLoggedIn = False,
      customerInfo = None, accountNumber = []\<rparr>"

text \<open>
  The calls of the state setters a handler makes, in order. \<open>AppendMessages\<close> and
  \<open>AppendEvents\<close> are the functional updates \<^verbatim>\<open>(prev) => [...prev, ...xs]\<close>.
\<close>

datatype ('a, 'g) setter =
    SetMessages "Message list"
  | AppendMessages "Message list"
  | SetEvents "AgentEvent list"
  | AppendEvents "AgentEvent list"
  | SetAgents "'a list"
  | SetCurrentAgent "string option"
  | SetGuardrails "'g list"
  | SetContext "(string \<times> string) list option"
  | SetConversationId "string option"
  | SetIsLoading bool
  | SetIsLoggedIn bool
  | SetCustomerInfo "CustomerInfo option"
  | SetAccountNumber string

fun apply_setter :: "('a, 'g) home \<Rightarrow> ('a, 'g) setter \<Rightarrow> ('a, 'g) home" where
  "apply_setter s (SetMessages ms) = s\<lparr>messages := ms\<rparr>"
| "apply_setter s (AppendMessages ms) = s\<lparr>messages := messages s @ ms\<rparr>"
| "apply_setter s (SetEvents es) = s\<lparr>events := es\<rparr>"
| "apply_setter s (AppendEvents es) = s\<lparr>events := events s @ es\<rparr>"
| "apply_setter s (SetAgents as) = s\<lparr>agents := as\<rparr>"
| "apply_setter s (SetCurrentAgent a) = s\<lparr>currentAgent := a\<rparr>"
| "apply_setter s (SetGuardrails gs) = s\<lparr>guardrails := gs\<rparr>"
| "apply_setter s (SetContext c) = s\<lparr>context_s := c\<rparr>"
| "apply_setter s (SetConversationId c) = s\<lparr>conversationId := c\<rparr>"
| "apply_setter s (SetIsLoading b) = s\<lparr>isLoading := b\<rparr>"
| "apply_setter s (SetIsLoggedIn b) = s\<lparr>isLoggedIn := b\<rparr>"
| "apply_setter s (SetCustomerInfo c) = s\<lparr>customerInfo := c\<rparr>"
| "apply_setter s (SetAccountNumber a) = s\<lparr>accountNumber := a\<rparr>"

definition commit :: "('a, 'g) setter list \<Rightarrow> ('a, 'g) home \<Rightarrow> ('a, 'g) home" where
  "commit ups s = foldl apply_setter s ups"

text \<open>
  \<^verbatim>\<open>events.map((e) => ({...e, timestamp: e.timestamp ?? Date.now()}))\<close>: the clock
  is read only for an event without a time stamp.
\<close>

fun stamp :: "AgentEvent list \<Rightarrow> world \<Rightarrow> AgentEvent list \<times> world" where
  "stamp [] w = ([], w)"
| "stamp (e # es) w =
     (case ev_timestamp e of
        Some t \<Rightarrow>
          (let (es', w') = stamp es w in (e\<lparr>ev_timestamp := Some t\<rparr> # es', w'))
      | None \<Rightarrow>
          (let (t, w1) = Date_now w;
               (es', w2) = stamp es w1
           in (e\<lparr>ev_timestamp := Some t\<rparr> # es', w2)))"

text \<open>
  \<^verbatim>\<open>data.messages.map((m) => ({id: Date.now().toString() + Math.random().toString(),
  content: m.content, role: "assistant", agent: m.agent, timestamp: new Date()}))\<close>
\<close>

fun toMessages :: "ResponseMessage list \<Rightarrow> world \<Rightarrow> Message list \<times> world" where
  "toMessages [] w = ([], w)"
| "toMessages (m # ms) w =
     (let (t, w1) = Date_now w;
          (r, w2) = Math_random_toString w1;
          (d, w3) = new_Date w2;
          (ms', w4) = toMessages ms w3
      in (\<lparr>msg_id = toString t @ r, content = m_content m, role = Assistant,
           agent = m_agent m, timestamp = d\<rparr> # ms', w4))"

definition welcome_text :: "string \<Rightarrow> string" where
  "welcome_text n =
     ''Welcome back, '' @ n @
     ''! I can help you with your bookings, flight status, seat changes, and more. How can I assist you today?''"

text \<open>
  \<^verbatim>\<open>Home.handleLogin(accNumber, custInfo)\<close>: the setter calls it makes, the world
  afterwards and how it ends. Nothing is done when the bootstrap call returns
  \<^verbatim>\<open>null\<close>.
\<close>

definition handleLogin ::
  "(request \<Rightarrow> ('a, 'g) ChatResponse option fetch_result) \<Rightarrow> string \<Rightarrow> CustomerInfo \<Rightarrow> world
     \<Rightarrow> ('a, 'g) setter list \<times> world \<times> unit completion" where
  "handleLogin fetch accNumber custInfo w =
     (let pre = [SetAccountNumber accNumber, SetCustomerInfo (Some custInfo), SetIsLoggedIn True];
          (r, w1) = callChatAPI fetch [] [] (Some accNumber) w
      in case r of
           Thrown err \<Rightarrow> (pre, w1, Thrown err)
         | Returned None \<Rightarrow> (pre, w1, Returned ())
         | Returned (Some data) \<Rightarrow>
             (let (initialEvents, w2) = stamp (nullish_else (data_events data) []) w1;
                  seed = [SetConversationId (data_conversation_id data),
                          SetCurrentAgent (data_current_agent data),
                          SetContext (data_context data),
                          SetEvents initialEvents,
                          SetAgents (nullish_else (data_agents data) []),
                          SetGuardrails (nullish_else (data_guardrails data) [])];
                  (fromResponse, w3) =
                     (case data_messages data of
                        Some ms \<Rightarrow> (let (xs, w') = toMessages ms w2 in ([SetMessages xs], w'))
                      | None \<Rightarrow> ([], w2));
                  (t, w4) = Date_now w3;
                  (d, w5) = new_Date w4;
                  welcomeMessage =
                    \<lparr>msg_id = toString t, content = welcome_text (name (customer custInfo)),
                     role = Assistant, agent = Some ''Triage Agent'', timestamp = d\<rparr>
              in (pre @ seed @ fromResponse @ [SetMessages [welcomeMessage]], w5, Returned ())))"

text \<open>
  \<^verbatim>\<open>Home.handleSendMessage(content)\<close>, run in the state \<open>s\<close> whose render created
  the handler: \<^verbatim>\<open>conversationId\<close> and \<^verbatim>\<open>accountNumber\<close> are read from \<open>s\<close>.
\<close>

definition fallback_text :: string where
  "fallback_text = ''I'm having trouble connecting right now. Please try again in a moment.''"

definition handleSendMessage ::
  "(request \<Rightarrow> ('a, 'g) ChatResponse option fetch_result) \<Rightarrow> string \<Rightarrow> ('a, 'g) home \<Rightarrow> world
     \<Rightarrow> ('a, 'g) setter list \<times> world \<times> unit completion" where
  "handleSendMessage fetch userContent s w =
     (let (t, w1) = Date_now w;
          (d, w2) = new_Date w1;
          userMsg = \<lparr>msg_id = toString t, content = userContent, role = User, agent = None,
                     timestamp = d\<rparr>;
          pre = [AppendMessages [userMsg], SetIsLoading True];
          (r, w3) = callChatAPI fetch userContent (nullish_else (conversationId s) [])
                      (Some (accountNumber s)) w2
      in case r of
           Thrown err \<Rightarrow> (pre, w3, Thrown err)
         | Returned None \<Rightarrow>
             (let w4 = console_error ''Chat API call returned no data for message:'' userContent w3;
                  (t', w5) = Date_now w4;
                  (d', w6) = new_Date w5
              in (pre @ [AppendMessages
                           [\<lparr>msg_id = toString t', content = fallback_text, role = Assistant,
                             agent = Some ''System'', timestamp = d'\<rparr>],
                         SetIsLoading False],
                  w6, Returned ()))
         | Returned (Some data) \<Rightarrow>
             (let cid = (if \<not> truthy (conversationId s)
                         then [SetConversationId
                                 (if truthy (data_conversation_id data)
                                  then data_conversation_id data else None)]
                         else []);
                  cur = [SetCurrentAgent (Some (or_else (data_current_agent data) [])),
                         SetContext (Some (nullish_else (data_context data) []))];
                  (evs, w4) =
                     (case data_events data of
                        Some es \<Rightarrow> (let (stamped, w') = stamp es w3 in ([AppendEvents stamped], w'))
                      | None \<Rightarrow> ([], w3));
                  ags = (case data_agents data of Some as \<Rightarrow> [SetAgents as] | None \<Rightarrow> []);
                  grs = (case data_guardrails data of Some gs \<Rightarrow> [SetGuardrails gs] | None \<Rightarrow> []);
                  (msgs, w5) =
                     (case data_messages data of
                        Some ms \<Rightarrow>
                          (let (responses, w') = toMessages ms w4
                           in ([AppendMessages responses], w'))
                      | None \<Rightarrow> ([], w4))
              in (pre @ cid @ cur @ evs @ ags @ grs @ msgs @ [SetIsLoading False],
                  w5, Returned ())))"

text \<open>
  A session of sends, one after the other: each send runs in the state the
  previous one left, against its own answer of the network.
\<close>

fun sends ::
  "(string \<times> (request \<Rightarrow> ('a, 'g) ChatResponse option fetch_result)) list
     \<Rightarrow> ('a, 'g) home \<Rightarrow> world \<Rightarrow> ('a, 'g) home \<times> world" where
  "sends [] s w = (s, w)"
| "sends ((userContent, fetch) # rest) s w =
     (case handleSendMessage fetch userContent s w of
        (ups, w', _) \<Rightarrow> sends rest (commit ups s) w')"

text \<open>
  The response a send works on: the value its transport call returns, \<open>None\<close> when the
  call returns \<^verbatim>\<open>null\<close> or rejects. \<open>processed\<close> lists the responses the sends of a
  session worked on, oldest first.
\<close>

definition received ::
  "(request \<Rightarrow> ('a, 'g) ChatResponse option fetch_result) \<Rightarrow> string \<Rightarrow> ('a, 'g) home \<Rightarrow> world
     \<Rightarrow> ('a, 'g) ChatResponse option" where
  "received fetch userContent s w =
     (case fst (callChatAPI fetch userContent (nullish_else (conversationId s) [])
                  (Some (accountNumber s)) w) of
        Returned r \<Rightarrow> r
      | Thrown err \<Rightarrow> None)"

fun processed ::
  "(string \<times> (request \<Rightarrow> ('a, 'g) ChatResponse option fetch_result)) list
     \<Rightarrow> ('a, 'g) home \<Rightarrow> world \<Rightarrow> ('a, 'g) ChatResponse list" where
  "processed [] s w = []"
| "processed ((userContent, fetch) # rest) s w =
     (case handleSendMessage fetch userContent s w of
        (ups, w', _) \<Rightarrow>
          (case received fetch userContent s w of Some data \<Rightarrow> [data] | None \<Rightarrow> []) @
          processed rest (commit ups s) w')"

text \<open>
  The specification's reading of a latest-write-wins slice: the value carried by the
  most recent response that included the field, and the starting value when no
  response included it.
\<close>

definition most_recent :: "('d \<Rightarrow> 'x option) \<Rightarrow> 'x \<Rightarrow> 'd list \<Rightarrow> 'x" where
  "most_recent field start ds =
     (case List.map_filter field (rev ds) of [] \<Rightarrow> start | x # _ \<Rightarrow> x)"

text \<open>
  What the specification asks of the events stored for the events \<open>es\<close> of a response,
  when \<open>c\<close> gives the readings of the clock and \<open>k\<close> is the index of the first reading
  taken after the response has arrived: an event with a time stamp is stored as it
  is, and an event without one is stored with the next reading of the clock, never a
  reading from before the response arrived.
\<close>

fun receipt_stamps :: "(nat \<Rightarrow> nat) \<Rightarrow> nat \<Rightarrow> AgentEvent list \<Rightarrow> AgentEvent list" where
  "receipt_stamps c k [] = []"
| "receipt_stamps c k (e # es) =
     (case ev_timestamp e of
        Some t \<Rightarrow> e # receipt_stamps c k es
      | None \<Rightarrow> e\<lparr>ev_timestamp := Some (c k)\<rparr> # receipt_stamps c (Suc k) es)"

text \<open>
  The same for one event \<open>e\<close> and the event \<open>e'\<close> stored for it: \<open>e'\<close> is \<open>e\<close> when \<open>e\<close>
  has a time stamp, and otherwise \<open>e\<close> with one of the readings \<open>lo\<close> to \<open>hi - 1\<close>.
\<close>

definition receipt_stamped ::
  "(nat \<Rightarrow> nat) \<Rightarrow> nat \<Rightarrow> nat \<Rightarrow> AgentEvent \<Rightarrow> AgentEvent \<Rightarrow> bool" where
  "receipt_stamped c lo hi e e' =
     (case ev_timestamp e of
        Some t \<Rightarrow> e' = e
      | None \<Rightarrow> (\<exists>j. lo \<le> j \<and> j < hi \<and> e' = e\<lparr>ev_timestamp := Some (c j)\<rparr>))"

definition unstamped :: "AgentEvent list \<Rightarrow> nat" where
  "unstamped es = length (filter (\<lambda>e. ev_timestamp e = None) es)"

section \<open>Example inputs\<close>

text \<open>A world whose clock stands still (every reading falls in the same millisecond).\<close>

definition frozen_world :: world where
  "frozen_world = \<lparr>clock = (\<lambda>k. 1000), reads = 0, random = (\<lambda>k. ''0.5''), draws = 0, console = []\<rparr>"

text \<open>A world whose clock advances by one millisecond at every reading.\<close>

definition ticking_world :: world where
  "ticking_world =
     \<lparr>clock = (\<lambda>k. 1000 + k), reads = 0, random = (\<lambda>k. ''0.5''), draws = 0, console = []\<rparr>"

text \<open>A logged-in session in the middle of a conversation.\<close>

definition session0 :: "(string, string) home" where
  "session0 =
     \<lparr>messages = [], events = [], agents = [''Triage Agent'', ''Seat Booking Agent''],
      currentAgent = Some ''Triage Agent'', guardrails = [''Relevance Guardrail''],
      context_s = Some [(''account_number'', ''CUST001'')], conversationId = Some ''c1'',
      isLoading = False, isLoggedIn = True, customerInfo = None, accountNumber = ''CUST001''\<rparr>"

text \<open>A reply of the server that carries one message and nothing else but the id.\<close>

definition reply_bare :: "(string, string) ChatResponse" where
  "reply_bare =
     \<lparr>data_conversation_id = Some ''c1'', data_current_agent = None, data_context = None,
      data_events = None, data_agents = None, data_guardrails = None,
      data_messages = Some [\<lparr>m_content = ''Which seat would you like?'',
                             m_agent = Some ''Seat Booking Agent''\<rparr>]\<rparr>"

text \<open>A reply without a conversation id.\<close>

definition reply_no_id :: "(string, string) ChatResponse" where
  "reply_no_id =
     \<lparr>data_conversation_id = None, data_current_agent = Some ''Triage Agent'',
      data_context = Some [], data_events = Some [], data_agents = Some [],
      data_guardrails = Some [], data_messages = Some []\<rparr>"

text \<open>
  A network that answers the one request it expects, the chat request of the message
  \<^verbatim>\<open>hello\<close> in the conversation \<^verbatim>\<open>c1\<close> with the account number \<^verbatim>\<open>CUST001\<close> in
  its body, and fails on every other request.
\<close>

definition expecting_account :: "request \<Rightarrow> nat option fetch_result" where
  "expecting_account r =
     (if r = \<lparr>req_url = ''/chat'', req_method = ''POST'',
                req_headers = [(''Content-Type'', ''application/json'')],
                req_body = Some [(''conversation_id'', ''c1''), (''message'', ''hello''),
                                 (''account_number'', ''CUST001'')]\<rparr>
      then Response 200 (Parsed (Some 7))
      else NetworkFailure ''unexpected request'')"

text \<open>A reply that carries a roster and a guardrail list.\<close>

definition reply_roster :: "(string, string) ChatResponse" where
  "reply_roster =
     \<lparr>data_conversation_id = Some ''c1'', data_current_agent = Some ''FAQ Agent'',
      data_context = Some [(''seat_number'', ''12A'')], data_events = None,
      data_agents = Some [''Triage Agent'', ''FAQ Agent''],
      data_guardrails = Some [''Jailbreak Guardrail''], data_messages = None\<rparr>"

text \<open>
  Three sends: the first is answered with a roster, the second with a reply that has
  none, the third fails on the network.
\<close>

definition steps0 ::
  "(string \<times> (request \<Rightarrow> (string, string) ChatResponse option fetch_result)) list" where
  "steps0 =
     [(''What is the baggage allowance?'', \<lambda>r. Response 200 (Parsed (Some reply_roster))),
      (''I want to change my seat'', \<lambda>r. Response 200 (Parsed (Some reply_bare))),
      (''12A please'', \<lambda>r. NetworkFailure ''offline'')]"

text \<open>A customer record.\<close>

definition alice :: CustomerInfo where
  "alice =
     \<lparr>customer = \<lparr>name = ''Alice Johnson'', account_number = ''CUST001'',
                   email = ''alice@example.com''\<rparr>,
      bookings = [''ABC123'']\<rparr>"

text \<open>A reply with two events: a hand-off stamped by the server and a tool call without a stamp.\<close>

definition reply_events :: "(string, string) ChatResponse" where
  "reply_events =
     \<lparr>data_conversation_id = Some ''c1'', data_current_agent = Some ''Seat Booking Agent'',
      data_context = None,
      data_events = Some [\<lparr>ev_type = ''handoff'', ev_fields = [(''agent'', ''Seat Booking Agent'')],
                             ev_timestamp = Some 5\<rparr>,
                          \<lparr>ev_type = ''tool_call'', ev_fields = [(''content'', ''update_seat'')],
                             ev_timestamp = None\<rparr>],
      data_agents = None, data_guardrails = None, data_messages = None\<rparr>"

text \<open>The login form with an account number typed in.\<close>

definition form0 :: login_form where
  "form0 = \<lparr>form_accountNumber = ''CUST999'', form_isLoading = False, form_error = []\<rparr>"

section \<open>The transport client: failures and the request body\<close>

lemma toString_500: "toString 500 = ''500''"
  by (simp add: toString.simps digit_def)

text \<open>
  What \<^verbatim>\<open>callChatAPI\<close> does on the failures its \<^verbatim>\<open>catch\<close> block sees, a rejection
  of \<^verbatim>\<open>fetch\<close> and a status that is not ok: it returns \<^verbatim>\<open>null\<close> and writes one entry
  to the console. On an ok status with a body that can be read it returns the parsed
  body and logs nothing.
\<close>

lemma callChatAPI_null_on_failure:
  "(fetch (chat_request m c a) = NetworkFailure err \<longrightarrow>
      fst (callChatAPI fetch m c a w) = Returned None \<and>
      console (snd (callChatAPI fetch m c a w)) =
        console w @ [(''Error sending message:'', err)]) \<and>
   (fetch (chat_request m c a) = Response status b \<and> \<not> ok status \<longrightarrow>
      fst (callChatAPI fetch m c a w) = Returned None \<and>
      console (snd (callChatAPI fetch m c a w)) =
        console w @ [(''Error sending message:'', ''Error: Chat API error: '' @ toString status)]) \<and>
   (fetch (chat_request m c a) = Response status (Parsed v) \<and> ok status \<longrightarrow>
      callChatAPI fetch m c a w = (Returned v, w))"
  by (simp add: callChatAPI_def console_error_def)

lemma callChatAPI_unreadable:
  "fetch (chat_request m c a) = Response status (Unreadable err) \<Longrightarrow> ok status \<Longrightarrow>
     callChatAPI fetch m c a w = (Thrown err, w)"
  by (simp add: callChatAPI_def)

lemma callChatAPI_example:
  "fst (callChatAPI (\<lambda>r. NetworkFailure ''TypeError: Failed to fetch'') ''hello'' ''c1''
          (Some ''CUST001'') frozen_world) = (Returned None :: nat option completion) \<and>
   console (snd (callChatAPI (\<lambda>r. Response 500 (Parsed (None :: nat option))) ''hello'' ''c1''
          (Some ''CUST001'') frozen_world)) =
     [(''Error sending message:'', ''Error: Chat API error: 500'')] \<and>
   callChatAPI (\<lambda>r. Response 200 (Parsed (Some (7::nat)))) ''hello'' ''c1''
          (Some ''CUST001'') frozen_world = (Returned (Some 7), frozen_world)"
  by (simp add: callChatAPI_def console_error_def ok_def toString_500 frozen_world_def)

text \<open>
  Claim C9 at a response with an ok status whose body cannot be read (here a transfer
  that breaks off while the body is read; a body that is not JSON goes the same way). \<^verbatim>\<open>callChatAPI\<close>
  returns the promise of \<^verbatim>\<open>res.json()\<close> without awaiting it inside the \<^verbatim>\<open>try\<close>, so
  the rejection passes the \<^verbatim>\<open>catch\<close> block: the call rejects to its caller instead of
  returning \<^verbatim>\<open>null\<close>, and nothing is logged. \<^verbatim>\<open>handleSendMessage\<close>, which only tests
  the result for \<^verbatim>\<open>null\<close>, rejects as well and leaves the pending flag set. The login
  form awaits \<^verbatim>\<open>response.json()\<close> inside its \<^verbatim>\<open>try\<close> and catches the same failure.
\<close>

theorem C9_unread_body_rejects:
  "callChatAPI (\<lambda>r. Response 200 (Unreadable ''TypeError: network error''))
       ''hello'' ''c1'' (Some ''CUST001'') frozen_world =
     (Thrown ''TypeError: network error'' :: (string, string) ChatResponse option completion,
      frozen_world) \<and>
   snd (snd (handleSendMessage (\<lambda>r. Response 200 (Unreadable ''TypeError: network error''))
       ''hello'' session0 frozen_world)) = Thrown ''TypeError: network error'' \<and>
   isLoading (commit (fst (handleSendMessage
       (\<lambda>r. Response 200 (Unreadable ''TypeError: network error''))
       ''hello'' session0 frozen_world)) session0) \<and>
   form_handleLogin trim_latin1
       (\<lambda>r. Response 200 (Unreadable ''TypeError: network error'' :: CustomerInfo body))
       form0 =
     (form0\<lparr>form_error := ''Network error. Please check your connection and try again.''\<rparr>,
      None)"
  by (simp add: callChatAPI_def handleSendMessage_def form_handleLogin_def ok_def Date_now_def
      new_Date_def Let_def nullish_else_def trim_latin1_def is_space_def session0_def form0_def
      frozen_world_def commit_def)

text \<open>
  Claim C10. The body that \<^verbatim>\<open>callChatAPI\<close> builds has the field \<^verbatim>\<open>account_number\<close>
  exactly when the account number argument is truthy: it is the conversation id and
  the message, followed by the account number in the truthy case and by nothing
  otherwise. The call puts this body on the wire: it posts the request with this body
  to \<^verbatim>\<open>/chat\<close>, in that its outcome is the answer of the network to exactly this
  request (it returns what the network answers there, and two networks that answer
  this request alike give the same outcome). A call with the empty string as account
  number builds the same request, and so behaves the same against every network, as
  a call without an account number.
\<close>

theorem C10_account_number_field:
  "(''account_number'' \<in> set (map fst (chat_body m c a))) = truthy a \<and>
   (truthy a \<longrightarrow>
      chat_body m c a =
        [(''conversation_id'', c), (''message'', m), (''account_number'', nullish_else a [])]) \<and>
   (\<not> truthy a \<longrightarrow> chat_body m c a = [(''conversation_id'', c), (''message'', m)]) \<and>
   chat_request m c a =
     \<lparr>req_url = ''/chat'', req_method = ''POST'',
      req_headers = [(''Content-Type'', ''application/json'')],
      req_body = Some (chat_body m c a)\<rparr> \<and>
   (fetch (chat_request m c a) = Response status (Parsed v) \<and> ok status \<longrightarrow>
      callChatAPI fetch m c a w = (Returned v, w)) \<and>
   (fetch (chat_request m c a) = fetch' (chat_request m c a) \<longrightarrow>
      callChatAPI fetch m c a w = callChatAPI fetch' m c a w) \<and>
   chat_request m c (Some []) = chat_request m c None \<and>
   callChatAPI fetch m c (Some []) w = callChatAPI fetch m c None w"
proof -
  have body: "(''account_number'' \<in> set (map fst (chat_body m c a))) = truthy a \<and>
     (truthy a \<longrightarrow>
        chat_body m c a =
          [(''conversation_id'', c), (''message'', m), (''account_number'', nullish_else a [])]) \<and>
     (\<not> truthy a \<longrightarrow> chat_body m c a = [(''conversation_id'', c), (''message'', m)])"
    by (cases a) (auto simp: chat_body_def truthy_def nullish_else_def)
  have request: "chat_request m c a =
     \<lparr>req_url = ''/chat'', req_method = ''POST'',
      req_headers = [(''Content-Type'', ''application/json'')],
      req_body = Some (chat_body m c a)\<rparr>"
    by (simp add: chat_request_def)
  have answer: "fetch (chat_request m c a) = Response status (Parsed v) \<and> ok status \<longrightarrow>
      callChatAPI fetch m c a w = (Returned v, w)"
    by (simp add: callChatAPI_def)
  have only: "fetch (chat_request m c a) = fetch' (chat_request m c a) \<longrightarrow>
      callChatAPI fetch m c a w = callChatAPI fetch' m c a w"
    by (simp add: callChatAPI_def)
  have same: "chat_request m c (Some []) = chat_request m c None"
    by (simp add: chat_request_def chat_body_def truthy_def)
  have "callChatAPI fetch m c (Some []) w = callChatAPI fetch m c None w"
    by (simp add: callChatAPI_def same)
  then show ?thesis
    using body request answer only same by blast
qed

theorem C10_account_number_field_witness:
  "''account_number'' \<in> set (map fst (chat_body ''hello'' ''c1'' (Some ''CUST001''))) \<and>
   ''account_number'' \<notin> set (map fst (chat_body ''hello'' ''c1'' (Some []))) \<and>
   ''account_number'' \<notin> set (map fst (chat_body ''hello'' ''c1'' None)) \<and>
   callChatAPI expecting_account ''hello'' ''c1'' (Some ''CUST001'') frozen_world =
     (Returned (Some 7), frozen_world)"
proof -
  have a: "truthy (Some ''CUST001'')" "\<not> truthy (Some [])" "\<not> truthy None"
    by (simp_all add: truthy_def)
  have sent: "chat_request ''hello'' ''c1'' (Some ''CUST001'') =
     \<lparr>req_url = ''/chat'', req_method = ''POST'',
      req_headers = [(''Content-Type'', ''application/json'')],
      req_body = Some [(''conversation_id'', ''c1''), (''message'', ''hello''),
                       (''account_number'', ''CUST001'')]\<rparr>"
    using a(1)
      C10_account_number_field
        [of "''hello''" "''c1''" "Some ''CUST001''" expecting_account 200 "Some 7"
            frozen_world expecting_account]
    by (simp add: nullish_else_def)
  then have "expecting_account (chat_request ''hello'' ''c1'' (Some ''CUST001'')) =
               Response 200 (Parsed (Some 7))"
    by (simp add: expecting_account_def)
  then have "callChatAPI expecting_account ''hello'' ''c1'' (Some ''CUST001'') frozen_world =
               (Returned (Some 7), frozen_world)"
    using C10_account_number_field
        [of "''hello''" "''c1''" "Some ''CUST001''" expecting_account 200 "Some 7"
            frozen_world expecting_account]
    by (simp add: ok_def)
  moreover
  have "''account_number'' \<in> set (map fst (chat_body ''hello'' ''c1'' (Some ''CUST001'')))"
    using a(1)
      C10_account_number_field
        [of "''hello''" "''c1''" "Some ''CUST001''" expecting_account 200 "Some 7"
            frozen_world expecting_account]
    by blast
  moreover
  have "''account_number'' \<notin> set (map fst (chat_body ''hello'' ''c1'' (Some [])))"
    using a(2)
      C10_account_number_field
        [of "''hello''" "''c1''" "Some []" expecting_account 200 "Some 7"
            frozen_world expecting_account]
    by blast
  moreover
  have "''account_number'' \<notin> set (map fst (chat_body ''hello'' ''c1'' None))"
    using a(3)
      C10_account_number_field
        [of "''hello''" "''c1''" "None" expecting_account 200 "Some 7"
            frozen_world expecting_account]
    by blast
  ultimately show ?thesis
    by blast
qed

section \<open>Facts about the effects\<close>

lemma callChatAPI_value_world:
  "fst (callChatAPI fetch m c a w) = fst (callChatAPI fetch m c a w')"
  by (simp add: callChatAPI_def split: fetch_result.split body.split)

lemma callChatAPI_clock:
  "clock (snd (callChatAPI fetch m c a w)) = clock w"
  "reads (snd (callChatAPI fetch m c a w)) = reads w"
  "random (snd (callChatAPI fetch m c a w)) = random w"
  "draws (snd (callChatAPI fetch m c a w)) = draws w"
  by (simp_all add: callChatAPI_def console_error_def split: fetch_result.split body.split)

lemma commit_simps [simp]:
  "commit [] s = s"
  "commit (u # ups) s = commit ups (apply_setter s u)"
  "commit (ups @ ups') s = commit ups' (commit ups s)"
  by (simp_all add: commit_def)

section \<open>The message dispatch loop: a failed send\<close>

lemma failed_send_state:
  assumes "fst (callChatAPI fetch userContent (nullish_else (conversationId s) [])
                  (Some (accountNumber s)) w) = Returned None"
  shows "\<exists>ups w'. handleSendMessage fetch userContent s w = (ups, w', Returned ()) \<and>
           commit ups s =
             s\<lparr>messages := messages s @
                  [\<lparr>msg_id = toString (clock w (reads w)), content = userContent, role = User,
                    agent = None, timestamp = clock w (reads w + 1)\<rparr>,
                   \<lparr>msg_id = toString (clock w (reads w + 2)),
                    content = ''I'm having trouble connecting right now. Please try again in a moment.'',
                    role = Assistant, agent = Some ''System'',
                    timestamp = clock w (reads w + 3)\<rparr>],
               isLoading := False\<rparr>"
proof -
  define w2 where "w2 = w\<lparr>reads := Suc (Suc (reads w))\<rparr>"
  obtain r w3 where call:
    "callChatAPI fetch userContent (nullish_else (conversationId s) [])
       (Some (accountNumber s)) w2 = (r, w3)"
    by (cases "callChatAPI fetch userContent (nullish_else (conversationId s) [])
                 (Some (accountNumber s)) w2") blast
  have r: "r = Returned None"
    using assms call
      callChatAPI_value_world [of fetch userContent "nullish_else (conversationId s) []"
        "Some (accountNumber s)" w w2]
    by simp
  have w3: "clock w3 = clock w" "reads w3 = Suc (Suc (reads w))"
    using callChatAPI_clock(1,2) [of fetch userContent "nullish_else (conversationId s) []"
        "Some (accountNumber s)" w2]
    unfolding call by (simp_all add: w2_def)
  show ?thesis
    using call r w3
    by (simp add: handleSendMessage_def Date_now_def new_Date_def console_error_def
        fallback_text_def w2_def Let_def numeral_2_eq_2 numeral_3_eq_3)
qed

text \<open>
  Claim C1. When the transport call of a send returns \<^verbatim>\<open>null\<close>, the handler resolves
  and the state it leaves differs from the state it started in only in the transcript
  and the pending flag: the transcript has gained the user's own message followed by
  exactly one assistant message with the fixed apology and the agent label
  \<^verbatim>\<open>System\<close>, and the pending flag is cleared. The conversation id, the current agent,
  the context, the events, the roster and the guardrails are those of the start.
\<close>

theorem C1_failed_send:
  assumes "fst (callChatAPI fetch userContent (nullish_else (conversationId s) [])
                  (Some (accountNumber s)) w) = Returned None"
  shows "\<exists>ups w'. handleSendMessage fetch userContent s w = (ups, w', Returned ()) \<and>
           commit ups s =
             s\<lparr>messages := messages s @
                  [\<lparr>msg_id = toString (clock w (reads w)), content = userContent, role = User,
                    agent = None, timestamp = clock w (reads w + 1)\<rparr>,
                   \<lparr>msg_id = toString (clock w (reads w + 2)),
                    content = ''I'm having trouble connecting right now. Please try again in a moment.'',
                    role = Assistant, agent = Some ''System'',
                    timestamp = clock w (reads w + 3)\<rparr>],
               isLoading := False\<rparr>"
  using assms by (rule failed_send_state)

theorem C1_failed_send_witness:
  "\<exists>ups w'. handleSendMessage (\<lambda>r. NetworkFailure ''offline'') ''Change my seat'' session0
              ticking_world = (ups, w', Returned ()) \<and>
           commit ups session0 =
             session0\<lparr>messages := messages session0 @
                  [\<lparr>msg_id = toString (clock ticking_world (reads ticking_world)),
                    content = ''Change my seat'', role = User,
                    agent = None, timestamp = clock ticking_world (reads ticking_world + 1)\<rparr>,
                   \<lparr>msg_id = toString (clock ticking_world (reads ticking_world + 2)),
                    content = ''I'm having trouble connecting right now. Please try again in a moment.'',
                    role = Assistant, agent = Some ''System'',
                    timestamp = clock ticking_world (reads ticking_world + 3)\<rparr>],
               isLoading := False\<rparr>"
  by (rule C1_failed_send) (simp add: callChatAPI_def)

section \<open>The message dispatch loop: a successful send\<close>

lemma callChatAPI_success:
  assumes "fst (callChatAPI fetch m c a w) = Returned (Some data)"
  shows "callChatAPI fetch m c a w' = (Returned (Some data), w')"
  using assms
  by (auto simp: callChatAPI_def split: fetch_result.splits body.splits if_splits)

text \<open>
  Claim C3, as the code has it. After a successful send the current agent is the
  value of the response when the response supplies a non-empty one, and the empty
  string when the response omits it (or supplies the empty string): the previous
  value is not kept.
\<close>

theorem C3_current_agent_or_empty:
  assumes "fst (callChatAPI fetch userContent (nullish_else (conversationId s) [])
                  (Some (accountNumber s)) w) = Returned (Some data)"
  shows "currentAgent (commit (fst (handleSendMessage fetch userContent s w)) s) =
           Some (case data_current_agent data of None \<Rightarrow> [] | Some a \<Rightarrow> a)"
  using callChatAPI_success [OF assms]
  by (simp add: handleSendMessage_def Date_now_def new_Date_def Let_def or_else_def
      split: option.split prod.split)

theorem C3_current_agent_or_empty_witness:
  "currentAgent (commit (fst (handleSendMessage (\<lambda>r. Response 200 (Parsed (Some reply_bare)))
       ''I want to change my seat'' session0 ticking_world)) session0) =
     Some (case data_current_agent reply_bare of None \<Rightarrow> [] | Some a \<Rightarrow> a)"
  by (rule C3_current_agent_or_empty) (simp add: callChatAPI_def ok_def)

text \<open>
  The claim as the specification words it fails: a response without a current agent
  clears the current agent to the empty string.
\<close>

theorem C3_current_agent_cleared:
  "currentAgent session0 = Some ''Triage Agent'' \<and>
   data_current_agent reply_bare = None \<and>
   currentAgent (commit (fst (handleSendMessage (\<lambda>r. Response 200 (Parsed (Some reply_bare)))
       ''I want to change my seat'' session0 ticking_world)) session0) = Some []"
  by (simp add: handleSendMessage_def callChatAPI_def ok_def Date_now_def new_Date_def
      Math_random_toString_def Let_def or_else_def truthy_def nullish_else_def
      session0_def reply_bare_def ticking_world_def)

section \<open>Roster and guardrails over a session\<close>

lemma callChatAPI_result:
  "callChatAPI fetch m c a w' = (r, w3) \<Longrightarrow> fst (callChatAPI fetch m c a w) = r"
  using callChatAPI_value_world [of fetch m c a w w'] by simp

lemma send_agents:
  "agents (commit (fst (handleSendMessage fetch userContent s w)) s) =
     (case received fetch userContent s w of
        None \<Rightarrow> agents s
      | Some data \<Rightarrow> (case data_agents data of None \<Rightarrow> agents s | Some as \<Rightarrow> as))"
  by (auto simp: handleSendMessage_def received_def Date_now_def new_Date_def Let_def
      split: option.splits prod.splits completion.splits
      dest!: callChatAPI_result [where w = w])

lemma send_guardrails:
  "guardrails (commit (fst (handleSendMessage fetch userContent s w)) s) =
     (case received fetch userContent s w of
        None \<Rightarrow> guardrails s
      | Some data \<Rightarrow> (case data_guardrails data of None \<Rightarrow> guardrails s | Some gs \<Rightarrow> gs))"
  by (auto simp: handleSendMessage_def received_def Date_now_def new_Date_def Let_def
      split: option.splits prod.splits completion.splits
      dest!: callChatAPI_result [where w = w])

lemma most_recent_Cons:
  "most_recent field start (d # ds) =
     most_recent field (case field d of None \<Rightarrow> start | Some x \<Rightarrow> x) ds"
  by (cases "field d")
     (auto simp: most_recent_def List.map_filter_def split: list.splits)

lemma most_recent_Nil: "most_recent field start [] = start"
  by (simp add: most_recent_def List.map_filter_def)

lemma sends_agents:
  "agents (fst (sends steps s w)) = most_recent data_agents (agents s) (processed steps s w)"
proof (induction steps arbitrary: s w)
  case Nil
  show ?case by (simp add: most_recent_Nil)
next
  case (Cons step steps)
  obtain userContent fetch where step: "step = (userContent, fetch)"
    by (cases step) blast
  obtain ups w' c where run: "handleSendMessage fetch userContent s w = (ups, w', c)"
    by (cases "handleSendMessage fetch userContent s w") blast
  have one: "agents (commit ups s) =
     (case received fetch userContent s w of
        None \<Rightarrow> agents s
      | Some data \<Rightarrow> (case data_agents data of None \<Rightarrow> agents s | Some as \<Rightarrow> as))"
    using send_agents [of fetch userContent s w] run by simp
  show ?case
    using Cons.IH [of "commit ups s" w'] one
    by (simp add: step run most_recent_Cons most_recent_Nil split: option.split)
qed

lemma sends_guardrails:
  "guardrails (fst (sends steps s w)) =
     most_recent data_guardrails (guardrails s) (processed steps s w)"
proof (induction steps arbitrary: s w)
  case Nil
  show ?case by (simp add: most_recent_Nil)
next
  case (Cons step steps)
  obtain userContent fetch where step: "step = (userContent, fetch)"
    by (cases step) blast
  obtain ups w' c where run: "handleSendMessage fetch userContent s w = (ups, w', c)"
    by (cases "handleSendMessage fetch userContent s w") blast
  have one: "guardrails (commit ups s) =
     (case received fetch userContent s w of
        None \<Rightarrow> guardrails s
      | Some data \<Rightarrow> (case data_guardrails data of None \<Rightarrow> guardrails s | Some gs \<Rightarrow> gs))"
    using send_guardrails [of fetch userContent s w] run by simp
  show ?case
    using Cons.IH [of "commit ups s" w'] one
    by (simp add: step run most_recent_Cons most_recent_Nil split: option.split)
qed

lemma login_roster:
  assumes "fst (callChatAPI fetch [] [] (Some accNumber) w) = Returned (Some data)"
  shows "agents (commit (fst (handleLogin fetch accNumber custInfo w)) s) =
           nullish_else (data_agents data) [] \<and>
         guardrails (commit (fst (handleLogin fetch accNumber custInfo w)) s) =
           nullish_else (data_guardrails data) []"
  using callChatAPI_success [OF assms, of w]
  by (simp add: handleLogin_def Date_now_def new_Date_def case_prod_beta Let_def
      split: option.split)

lemma received_const:
  "received (\<lambda>r. Response 200 (Parsed v)) userContent s w = v"
  "received (\<lambda>r. NetworkFailure err) userContent s w = None"
  by (simp_all add: received_def callChatAPI_def ok_def)

text \<open>
  Claim C4. After any session of sends the roster is the one carried by the most
  recent response that included a roster (the starting roster when none did), and
  the same holds for the guardrail list: a send whose response omits them, and a send
  that got no response, leave both as they were. The same holds for a whole session,
  the bootstrap response of the login counted as the first response: the login runs
  in the initial state, where roster and guardrail list are empty.
\<close>

theorem C4_roster_guardrails_most_recent:
  "agents (fst (sends steps s w)) = most_recent data_agents (agents s) (processed steps s w) \<and>
   guardrails (fst (sends steps s w)) =
     most_recent data_guardrails (guardrails s) (processed steps s w) \<and>
   (fst (callChatAPI fetch [] [] (Some accNumber) w0) = Returned (Some data) \<longrightarrow>
      agents (fst (sends steps (commit (fst (handleLogin fetch accNumber custInfo w0)) initial) w)) =
        most_recent data_agents []
          (data # processed steps (commit (fst (handleLogin fetch accNumber custInfo w0)) initial) w) \<and>
      guardrails (fst (sends steps (commit (fst (handleLogin fetch accNumber custInfo w0)) initial) w)) =
        most_recent data_guardrails []
          (data # processed steps (commit (fst (handleLogin fetch accNumber custInfo w0)) initial) w))"
proof (intro conjI impI)
  show "agents (fst (sends steps s w)) = most_recent data_agents (agents s) (processed steps s w)"
    by (rule sends_agents)
  show "guardrails (fst (sends steps s w)) =
          most_recent data_guardrails (guardrails s) (processed steps s w)"
    by (rule sends_guardrails)
next
  assume boot: "fst (callChatAPI fetch [] [] (Some accNumber) w0) = Returned (Some data)"
  define s1 :: "('a, 'b) home" where
    "s1 = commit (fst (handleLogin fetch accNumber custInfo w0)) initial"
  have "agents s1 = nullish_else (data_agents data) []"
    unfolding s1_def using login_roster [OF boot] by blast
  then have "agents (fst (sends steps s1 w)) =
               most_recent data_agents [] (data # processed steps s1 w)"
    using sends_agents [of steps s1 w]
    by (simp add: most_recent_Cons nullish_else_def)
  then show "agents (fst (sends steps
                 (commit (fst (handleLogin fetch accNumber custInfo w0)) initial) w)) =
        most_recent data_agents []
          (data # processed steps (commit (fst (handleLogin fetch accNumber custInfo w0)) initial) w)"
    by (simp add: s1_def)
next
  assume boot: "fst (callChatAPI fetch [] [] (Some accNumber) w0) = Returned (Some data)"
  define s1 :: "('a, 'b) home" where
    "s1 = commit (fst (handleLogin fetch accNumber custInfo w0)) initial"
  have "guardrails s1 = nullish_else (data_guardrails data) []"
    unfolding s1_def using login_roster [OF boot] by blast
  then have "guardrails (fst (sends steps s1 w)) =
               most_recent data_guardrails [] (data # processed steps s1 w)"
    using sends_guardrails [of steps s1 w]
    by (simp add: most_recent_Cons nullish_else_def)
  then show "guardrails (fst (sends steps
                 (commit (fst (handleLogin fetch accNumber custInfo w0)) initial) w)) =
        most_recent data_guardrails []
          (data # processed steps (commit (fst (handleLogin fetch accNumber custInfo w0)) initial) w)"
    by (simp add: s1_def)
qed

theorem C4_roster_guardrails_witness:
  "agents (fst (sends steps0 session0 ticking_world)) = [''Triage Agent'', ''FAQ Agent''] \<and>
   guardrails (fst (sends steps0 session0 ticking_world)) = [''Jailbreak Guardrail''] \<and>
   agents (fst (sends (tl steps0)
      (commit (fst (handleLogin (\<lambda>r. Response 200 (Parsed (Some reply_roster))) ''CUST001''
         alice ticking_world)) initial) frozen_world)) = [''Triage Agent'', ''FAQ Agent''] \<and>
   guardrails (fst (sends (tl steps0)
      (commit (fst (handleLogin (\<lambda>r. Response 200 (Parsed (Some reply_roster))) ''CUST001''
         alice ticking_world)) initial) frozen_world)) = [''Jailbreak Guardrail'']"
  using
    C4_roster_guardrails_most_recent
      [of steps0 session0 ticking_world "\<lambda>r. Response 200 (Parsed (Some reply_roster))"
          "''CUST001''" ticking_world reply_roster alice]
    C4_roster_guardrails_most_recent
      [of "tl steps0" session0 frozen_world "\<lambda>r. Response 200 (Parsed (Some reply_roster))"
          "''CUST001''" ticking_world reply_roster alice]
  by (simp add: steps0_def received_const case_prod_beta most_recent_def List.map_filter_def
      reply_roster_def reply_bare_def callChatAPI_def ok_def)

section \<open>The shared context at bootstrap\<close>

text \<open>
  Claim C5 at a bootstrap response without a context. The dispatch path stores the
  empty mapping for such a response; the bootstrap path stores \<^verbatim>\<open>undefined\<close>.
\<close>

theorem C5_bootstrap_context_undefined:
  "data_context reply_bare = None \<and>
   context_s (commit (fst (handleSendMessage (\<lambda>r. Response 200 (Parsed (Some reply_bare)))
       ''I want to change my seat'' session0 ticking_world)) session0) = Some [] \<and>
   context_s (commit (fst (handleLogin (\<lambda>r. Response 200 (Parsed (Some reply_bare)))
       ''CUST001'' alice ticking_world)) (initial :: (string, string) home)) = None"
  by (simp add: handleSendMessage_def handleLogin_def callChatAPI_def ok_def Date_now_def
      new_Date_def Math_random_toString_def Let_def or_else_def truthy_def nullish_else_def
      session0_def reply_bare_def ticking_world_def initial_def)

section \<open>Time stamps of events\<close>

lemma stamp_world:
  "clock (snd (stamp es w)) = clock w \<and> reads w \<le> reads (snd (stamp es w)) \<and>
   random (snd (stamp es w)) = random w \<and> draws (snd (stamp es w)) = draws w \<and>
   console (snd (stamp es w)) = console w"
proof (induction es arbitrary: w)
  case Nil
  show ?case by simp
next
  case (Cons e es)
  show ?case
    using Cons.IH [of w] Cons.IH [of "w\<lparr>reads := Suc (reads w)\<rparr>"]
    by (simp add: Date_now_def case_prod_beta Let_def split: option.split)
qed

lemma stamp_receipt_stamps: "fst (stamp es w) = receipt_stamps (clock w) (reads w) es"
proof (induction es arbitrary: w)
  case Nil
  show ?case by simp
next
  case (Cons e es)
  show ?case
  proof (cases "ev_timestamp e")
    case (Some t)
    then have same: "e\<lparr>ev_timestamp := Some t\<rparr> = e"
      by (cases e) simp
    show ?thesis
      using Cons.IH [of w] Some same by (simp add: case_prod_beta)
  next
    case None
    show ?thesis
      using Cons.IH [of "w\<lparr>reads := Suc (reads w)\<rparr>"] None
      by (simp add: case_prod_beta Date_now_def)
  qed
qed

lemma receipt_stamped_wider:
  assumes "lo' \<le> lo" and "hi \<le> hi'" and "receipt_stamped c lo hi e e'"
  shows "receipt_stamped c lo' hi' e e'"
proof (cases "ev_timestamp e")
  case None
  then obtain j where "lo \<le> j" "j < hi" "e' = e\<lparr>ev_timestamp := Some (c j)\<rparr>"
    using assms(3) by (auto simp: receipt_stamped_def)
  then have "lo' \<le> j \<and> j < hi' \<and> e' = e\<lparr>ev_timestamp := Some (c j)\<rparr>"
    using assms(1,2) by simp
  then show ?thesis
    using None by (auto simp: receipt_stamped_def)
next
  case (Some t)
  then show ?thesis
    using assms(3) by (simp add: receipt_stamped_def)
qed

lemma receipt_stamps_each:
  "list_all2 (receipt_stamped c k (k + unstamped es)) es (receipt_stamps c k es)"
proof (induction es arbitrary: k)
  case Nil
  show ?case by simp
next
  case (Cons e es)
  show ?case
  proof (cases "ev_timestamp e")
    case (Some t)
    have "receipt_stamped c k (k + unstamped (e # es)) e e"
      using Some by (simp add: receipt_stamped_def)
    then show ?thesis
      using Cons.IH [of k] Some by (simp add: unstamped_def)
  next
    case None
    have first: "receipt_stamped c k (k + unstamped (e # es)) e (e\<lparr>ev_timestamp := Some (c k)\<rparr>)"
      using None by (auto simp: receipt_stamped_def unstamped_def)
    have rest: "list_all2 (receipt_stamped c k (k + unstamped (e # es))) es
                  (receipt_stamps c (Suc k) es)"
      using Cons.IH [of "Suc k"]
      by (rule list_all2_mono)
         (rule receipt_stamped_wider [of k "Suc k" "Suc k + unstamped es"],
          simp_all add: unstamped_def None)
    show ?thesis
      using first rest None by simp
  qed
qed

lemma stamp_example:
  "fst (stamp (nullish_else (data_events reply_events) []) ticking_world) =
     [\<lparr>ev_type = ''handoff'', ev_fields = [(''agent'', ''Seat Booking Agent'')],
        ev_timestamp = Some 5\<rparr>,
      \<lparr>ev_type = ''tool_call'', ev_fields = [(''content'', ''update_seat'')],
        ev_timestamp = Some 1000\<rparr>]"
  by (simp add: reply_events_def nullish_else_def ticking_world_def Date_now_def)

text \<open>
  Claim C6. In the bootstrap path and in the dispatch path, every event of a
  processed response is stored unchanged when it carries a time stamp, and stored
  with a reading of the clock taken after the response has arrived when it carries
  none. The bootstrap path takes no reading before its request, so the readings start
  at the one the handler begins with, and the trace becomes exactly these events. The
  dispatch path has taken two readings for the user's message before its request, so
  the readings start two later, and the events are appended to the trace. The last
  part reads the list of stored events event by event.
\<close>

theorem C6_event_timestamps:
  "(fst (callChatAPI fetch [] [] (Some accNumber) w) = Returned (Some data) \<longrightarrow>
      events (commit (fst (handleLogin fetch accNumber custInfo w)) s) =
        receipt_stamps (clock w) (reads w) (nullish_else (data_events data) [])) \<and>
   (fst (callChatAPI fetch userContent (nullish_else (conversationId s) [])
           (Some (accountNumber s)) w) = Returned (Some data) \<longrightarrow>
      events (commit (fst (handleSendMessage fetch userContent s w)) s) =
        events s @ receipt_stamps (clock w) (reads w + 2) (nullish_else (data_events data) [])) \<and>
   list_all2 (receipt_stamped c k (k + unstamped es)) es (receipt_stamps c k es)"
proof (intro conjI impI)
  assume "fst (callChatAPI fetch [] [] (Some accNumber) w) = Returned (Some data)"
  then have call: "callChatAPI fetch [] [] (Some accNumber) w = (Returned (Some data), w)"
    by (rule callChatAPI_success)
  have "events (commit (fst (handleLogin fetch accNumber custInfo w)) s) =
          fst (stamp (nullish_else (data_events data) []) w)"
    using call
    by (simp add: handleLogin_def Date_now_def new_Date_def case_prod_beta Let_def
        split: option.split)
  then show "events (commit (fst (handleLogin fetch accNumber custInfo w)) s) =
        receipt_stamps (clock w) (reads w) (nullish_else (data_events data) [])"
    by (simp add: stamp_receipt_stamps)
next
  define w2 where "w2 = w\<lparr>reads := Suc (Suc (reads w))\<rparr>"
  assume "fst (callChatAPI fetch userContent (nullish_else (conversationId s) [])
           (Some (accountNumber s)) w) = Returned (Some data)"
  then have call: "callChatAPI fetch userContent (nullish_else (conversationId s) [])
           (Some (accountNumber s)) w2 = (Returned (Some data), w2)"
    by (rule callChatAPI_success)
  have "events (commit (fst (handleSendMessage fetch userContent s w)) s) =
          events s @ fst (stamp (nullish_else (data_events data) []) w2)"
    using call
    by (simp add: handleSendMessage_def Date_now_def new_Date_def case_prod_beta Let_def
        nullish_else_def w2_def split: option.split)
  then show "events (commit (fst (handleSendMessage fetch userContent s w)) s) =
        events s @ receipt_stamps (clock w) (reads w + 2) (nullish_else (data_events data) [])"
    by (simp add: stamp_receipt_stamps w2_def)
next
  show "list_all2 (receipt_stamped c k (k + unstamped es)) es (receipt_stamps c k es)"
    by (rule receipt_stamps_each)
qed

theorem C6_event_timestamps_witness:
  "events (commit (fst (handleLogin (\<lambda>r. Response 200 (Parsed (Some reply_events)))
        ''CUST001'' alice ticking_world)) session0) =
     [\<lparr>ev_type = ''handoff'', ev_fields = [(''agent'', ''Seat Booking Agent'')],
        ev_timestamp = Some 5\<rparr>,
      \<lparr>ev_type = ''tool_call'', ev_fields = [(''content'', ''update_seat'')],
        ev_timestamp = Some 1000\<rparr>] \<and>
   events (commit (fst (handleSendMessage (\<lambda>r. Response 200 (Parsed (Some reply_events)))
        ''12A please'' session0 ticking_world)) session0) =
     [\<lparr>ev_type = ''handoff'', ev_fields = [(''agent'', ''Seat Booking Agent'')],
        ev_timestamp = Some 5\<rparr>,
      \<lparr>ev_type = ''tool_call'', ev_fields = [(''content'', ''update_seat'')],
        ev_timestamp = Some 1002\<rparr>]"
  using C6_event_timestamps
    [of "\<lambda>r. Response 200 (Parsed (Some reply_events))" "''CUST001''" ticking_world reply_events
        alice session0 "''12A please''" "\<lambda>k. 1000 + k" 0 "[]"]
  by (simp add: callChatAPI_def ok_def reply_events_def nullish_else_def ticking_world_def
      session0_def numeral_2_eq_2)

section \<open>The customer lookup\<close>

lemma trim_CUST999: "trim_latin1 ''CUST999'' \<noteq> []"
  by (simp add: trim_latin1_def is_space_def)

text \<open>
  Claim C7, as the code has it. \<^verbatim>\<open>getCustomerInfo\<close> of the transport client returns
  \<^verbatim>\<open>null\<close> for the status 404, for every other status that is not ok and for a
  rejection of \<^verbatim>\<open>fetch\<close> alike, so its caller cannot tell an unknown account from
  another failure; on an ok status whose body cannot be read it rejects. The login
  form does not call it: the form fetches the customer itself and, for an account
  number that is not blank, shows one message for the status 404, another for every
  other status that is not ok, and a third for a rejection of \<^verbatim>\<open>fetch\<close> and for a
  body that cannot be read; in all these cases it does not log the customer in.
\<close>

theorem C7_lookup_failures:
  "(fetch (customer_request acc) = Response status b \<and> \<not> ok status \<longrightarrow>
      fst (getCustomerInfo fetch acc w) = Returned None) \<and>
   (fetch (customer_request acc) = NetworkFailure err \<longrightarrow>
      fst (getCustomerInfo fetch acc w) = Returned None) \<and>
   (fetch (customer_request acc) = Response status (Unreadable err) \<and> ok status \<longrightarrow>
      fst (getCustomerInfo fetch acc w) = Thrown err) \<and>
   (trim (form_accountNumber f) \<noteq> [] \<and>
    fetch (customer_request (form_accountNumber f)) = Response status b \<and> \<not> ok status \<longrightarrow>
      snd (form_handleLogin trim fetch f) = None \<and>
      form_error (fst (form_handleLogin trim fetch f)) =
        (if status = 404 then ''Account number not found. Please check and try again.''
         else ''Failed to load customer information. Please try again.'')) \<and>
   (trim (form_accountNumber f) \<noteq> [] \<and>
    (fetch (customer_request (form_accountNumber f)) = NetworkFailure err \<or>
     fetch (customer_request (form_accountNumber f)) = Response status (Unreadable err) \<and>
     ok status) \<longrightarrow>
      snd (form_handleLogin trim fetch f) = None \<and>
      form_error (fst (form_handleLogin trim fetch f)) =
        ''Network error. Please check your connection and try again.'')"
  by (auto simp: getCustomerInfo_def form_handleLogin_def)

theorem C7_lookup_failures_witness:
  "fst (getCustomerInfo (\<lambda>r. Response 404 (Parsed (None :: CustomerInfo option))) ''CUST999''
          frozen_world) = Returned None \<and>
   fst (getCustomerInfo (\<lambda>r. NetworkFailure ''offline'' :: CustomerInfo option fetch_result)
          ''CUST999'' frozen_world) = Returned None \<and>
   fst (getCustomerInfo
          (\<lambda>r. Response 200 (Unreadable ''SyntaxError'' :: CustomerInfo option body))
          ''CUST999'' frozen_world) = Thrown ''SyntaxError'' \<and>
   form_error (fst (form_handleLogin trim_latin1
      (\<lambda>r. Response 404 (Parsed (None :: CustomerInfo option))) form0)) =
     ''Account number not found. Please check and try again.'' \<and>
   form_error (fst (form_handleLogin trim_latin1
      (\<lambda>r. Response 500 (Parsed (None :: CustomerInfo option))) form0)) =
     ''Failed to load customer information. Please try again.'' \<and>
   form_error (fst (form_handleLogin trim_latin1
      (\<lambda>r. NetworkFailure ''offline'' :: CustomerInfo option fetch_result) form0)) =
     ''Network error. Please check your connection and try again.'' \<and>
   form_error (fst (form_handleLogin trim_latin1
      (\<lambda>r. Response 200 (Unreadable ''SyntaxError'' :: CustomerInfo option body)) form0)) =
     ''Network error. Please check your connection and try again.''"
  using
    C7_lookup_failures
      [of "\<lambda>r. Response 404 (Parsed (None :: CustomerInfo option))" "''CUST999''" 404
          "Parsed None" frozen_world "[]" trim_latin1 form0]
    C7_lookup_failures
      [of "\<lambda>r. Response 500 (Parsed (None :: CustomerInfo option))" "''CUST999''" 500
          "Parsed None" frozen_world "[]" trim_latin1 form0]
    C7_lookup_failures
      [of "\<lambda>r. NetworkFailure ''offline'' :: CustomerInfo option fetch_result" "''CUST999''" 0
          "Parsed None" frozen_world "''offline''" trim_latin1 form0]
    C7_lookup_failures
      [of "\<lambda>r. Response 200 (Unreadable ''SyntaxError'' :: CustomerInfo option body)"
          "''CUST999''" 200 "Parsed None" frozen_world "''SyntaxError''" trim_latin1 form0]
    trim_CUST999
  by (simp add: ok_def form0_def)

text \<open>
  The claim as the specification words it fails for the transport client: the
  statuses 404 and 500 give the caller of \<^verbatim>\<open>getCustomerInfo\<close> the same value.
\<close>

theorem C7_getCustomerInfo_same_for_404_and_500:
  "fst (getCustomerInfo (\<lambda>r. Response 404 (Parsed (None :: CustomerInfo option))) ''CUST999''
          frozen_world) = Returned None \<and>
   fst (getCustomerInfo (\<lambda>r. Response 500 (Parsed (None :: CustomerInfo option))) ''CUST999''
          frozen_world) = Returned None"
  by (simp add: getCustomerInfo_def ok_def)

section \<open>The ids of the messages\<close>

lemma digit_inj: "a < 10 \<Longrightarrow> b < 10 \<Longrightarrow> digit a = digit b \<Longrightarrow> a = b"
  by (simp add: digit_def split: if_splits) arith

lemma toString_nonempty: "toString n \<noteq> []"
  by (subst toString.simps) simp

lemma toString_last: "last (toString n) = digit (n mod 10)"
  by (subst toString.simps) simp

lemma toString_butlast:
  "butlast (toString n) = (if n < 10 then [] else toString (n div 10))"
  by (subst toString.simps) simp

lemma toString_inj: "toString a = toString b \<Longrightarrow> a = b"
proof (induction a arbitrary: b rule: toString.induct)
  case (1 n)
  have "digit (n mod 10) = digit (b mod 10)"
    using "1.prems" toString_last [of n] toString_last [of b] by simp
  then have units: "n mod 10 = b mod 10"
    by (intro digit_inj) simp_all
  have front: "(if n < 10 then [] else toString (n div 10)) =
               (if b < 10 then [] else toString (b div 10))"
    using "1.prems" toString_butlast [of n] toString_butlast [of b] by simp
  show ?case
  proof (cases "n < 10")
    case True
    then have "b < 10"
      using front toString_nonempty [of "b div 10"] by (auto split: if_splits)
    then show ?thesis
      using True units by simp
  next
    case False
    then have "\<not> b < 10"
      using front toString_nonempty [of "n div 10"] by (auto split: if_splits)
    then have "toString (n div 10) = toString (b div 10)"
      using front False by simp
    then have "n div 10 = b div 10"
      using "1.IH" False by blast
    then show ?thesis
      using units by (metis div_mult_mod_eq)
  qed
qed

lemma toMessages_world:
  "clock (snd (toMessages ms w)) = clock w \<and> reads w \<le> reads (snd (toMessages ms w)) \<and>
   random (snd (toMessages ms w)) = random w \<and> draws w \<le> draws (snd (toMessages ms w)) \<and>
   console (snd (toMessages ms w)) = console w"
proof (induction ms arbitrary: w)
  case Nil
  show ?case by simp
next
  case (Cons m ms)
  show ?case
    using Cons.IH [of "w\<lparr>draws := Suc (draws w), reads := Suc (Suc (reads w))\<rparr>"]
    by (simp add: Date_now_def new_Date_def Math_random_toString_def case_prod_beta Let_def)
qed

lemma toMessages_ids:
  "m \<in> set (fst (toMessages ms w)) \<Longrightarrow>
     \<exists>k j. reads w \<le> k \<and> draws w \<le> j \<and> msg_id m = toString (clock w k) @ random w j"
proof (induction ms arbitrary: w)
  case Nil
  then show ?case by simp
next
  case (Cons x xs)
  define w3 where "w3 = w\<lparr>draws := Suc (draws w), reads := Suc (Suc (reads w))\<rparr>"
  have "msg_id m = toString (clock w (reads w)) @ random w (draws w) \<or>
        m \<in> set (fst (toMessages xs w3))"
    using Cons.prems
    by (auto simp: Date_now_def new_Date_def Math_random_toString_def case_prod_beta Let_def
        w3_def)
  then show ?case
  proof
    assume "msg_id m = toString (clock w (reads w)) @ random w (draws w)"
    then show ?thesis by blast
  next
    assume "m \<in> set (fst (toMessages xs w3))"
    then obtain k j where "reads w3 \<le> k" "draws w3 \<le> j"
      "msg_id m = toString (clock w3 k) @ random w3 j"
      using Cons.IH [of w3] by blast
    then have "reads w \<le> k \<and> draws w \<le> j \<and> msg_id m = toString (clock w k) @ random w j"
      by (simp add: w3_def)
    then show ?thesis by blast
  qed
qed

lemma successful_send_messages:
  assumes "fst (callChatAPI fetch userContent (nullish_else (conversationId s) [])
                  (Some (accountNumber s)) w) = Returned (Some data)"
  shows "messages (commit (fst (handleSendMessage fetch userContent s w)) s) =
           messages s @
           \<lparr>msg_id = toString (clock w (reads w)), content = userContent, role = User,
            agent = None, timestamp = clock w (Suc (reads w))\<rparr> #
           (case data_messages data of
              None \<Rightarrow> []
            | Some ms \<Rightarrow>
                fst (toMessages ms
                  (case data_events data of
                     None \<Rightarrow> w\<lparr>reads := Suc (Suc (reads w))\<rparr>
                   | Some es \<Rightarrow> snd (stamp es (w\<lparr>reads := Suc (Suc (reads w))\<rparr>)))))"
  using callChatAPI_success [OF assms, of "w\<lparr>reads := Suc (Suc (reads w))\<rparr>"]
  by (simp add: handleSendMessage_def Date_now_def new_Date_def case_prod_beta Let_def
      split: option.split)

lemma login_success_setters:
  fixes data :: "('a, 'g) ChatResponse" and w :: world
  defines "w2 \<equiv> snd (stamp (nullish_else (data_events data) []) w)"
  defines "w3 \<equiv> (case data_messages data of None \<Rightarrow> w2 | Some ms \<Rightarrow> snd (toMessages ms w2))"
  assumes "fst (callChatAPI fetch [] [] (Some accNumber) w) = Returned (Some data)"
  shows "fst (handleLogin fetch accNumber custInfo w) =
           ([SetAccountNumber accNumber, SetCustomerInfo (Some custInfo), SetIsLoggedIn True,
             SetConversationId (data_conversation_id data),
             SetCurrentAgent (data_current_agent data),
             SetContext (data_context data),
             SetEvents (fst (stamp (nullish_else (data_events data) []) w)),
             SetAgents (nullish_else (data_agents data) []),
             SetGuardrails (nullish_else (data_guardrails data) [])] @
            (case data_messages data of
               None \<Rightarrow> []
             | Some ms \<Rightarrow> [SetMessages (fst (toMessages ms w2))])) @
           [SetMessages
              [\<lparr>msg_id = toString (clock w3 (reads w3)),
                content = welcome_text (name (customer custInfo)), role = Assistant,
                agent = Some ''Triage Agent'', timestamp = clock w3 (Suc (reads w3))\<rparr>]]"
  unfolding w2_def w3_def
  using callChatAPI_success [OF assms(3), of w]
  by (simp add: handleLogin_def Date_now_def new_Date_def case_prod_beta Let_def
      split: option.split)

lemma login_welcome_world:
  fixes data :: "('a, 'g) ChatResponse" and w :: world
  defines "w2 \<equiv> snd (stamp (nullish_else (data_events data) []) w)"
  defines "w3 \<equiv> (case data_messages data of None \<Rightarrow> w2 | Some ms \<Rightarrow> snd (toMessages ms w2))"
  shows "clock w2 = clock w \<and> random w2 = random w \<and> clock w3 = clock w \<and> reads w \<le> reads w3"
proof -
  have a: "clock w2 = clock w \<and> random w2 = random w \<and> reads w \<le> reads w2"
    unfolding w2_def using stamp_world [of "nullish_else (data_events data) []" w] by simp
  show ?thesis
  proof (cases "data_messages data")
    case None
    then show ?thesis
      using a by (simp add: w3_def)
  next
    case (Some ms)
    then show ?thesis
      using a toMessages_world [of ms w2] by (simp add: w3_def)
  qed
qed

lemma failed_send_ids:
  assumes "fst (callChatAPI fetch userContent (nullish_else (conversationId s) [])
                  (Some (accountNumber s)) w) = Returned None"
  shows "\<exists>u m. messages (commit (fst (handleSendMessage fetch userContent s w)) s) =
                 messages s @ [u, m] \<and>
               msg_id u = toString (clock w (reads w)) \<and>
               msg_id m = toString (clock w (reads w + 2))"
proof -
  obtain ups w' where
    "handleSendMessage fetch userContent s w = (ups, w', Returned ())" and
    "commit ups s =
       s\<lparr>messages := messages s @
            [\<lparr>msg_id = toString (clock w (reads w)), content = userContent, role = User,
              agent = None, timestamp = clock w (reads w + 1)\<rparr>,
             \<lparr>msg_id = toString (clock w (reads w + 2)),
              content = ''I'm having trouble connecting right now. Please try again in a moment.'',
              role = Assistant, agent = Some ''System'',
              timestamp = clock w (reads w + 3)\<rparr>],
         isLoading := False\<rparr>"
    using failed_send_state [OF assms] by blast
  then show ?thesis by simp
qed

lemma successful_send_ids:
  assumes "fst (callChatAPI fetch userContent (nullish_else (conversationId s) [])
                  (Some (accountNumber s)) w) = Returned (Some data)"
  shows "\<exists>u rs. messages (commit (fst (handleSendMessage fetch userContent s w)) s) =
                  messages s @ u # rs \<and>
                msg_id u = toString (clock w (reads w)) \<and>
                (\<forall>m\<in>set rs. \<exists>k j. msg_id m = toString (clock w k) @ random w j)"
proof -
  define w2 where "w2 = w\<lparr>reads := Suc (Suc (reads w))\<rparr>"
  define w4 where "w4 = (case data_events data of None \<Rightarrow> w2 | Some es \<Rightarrow> snd (stamp es w2))"
  define rs where
    "rs = (case data_messages data of None \<Rightarrow> [] | Some ms \<Rightarrow> fst (toMessages ms w4))"
  have w4: "clock w4 = clock w \<and> random w4 = random w"
  proof (cases "data_events data")
    case None
    then show ?thesis by (simp add: w4_def w2_def)
  next
    case (Some es)
    then show ?thesis
      using stamp_world [of es w2] by (simp add: w4_def w2_def)
  qed
  have ids: "\<forall>m\<in>set rs. \<exists>k j. msg_id m = toString (clock w k) @ random w j"
  proof (cases "data_messages data")
    case None
    then show ?thesis by (simp add: rs_def)
  next
    case (Some ms)
    show ?thesis
    proof
      fix m
      assume "m \<in> set rs"
      then have "m \<in> set (fst (toMessages ms w4))"
        using Some by (simp add: rs_def)
      then obtain k j where "msg_id m = toString (clock w4 k) @ random w4 j"
        using toMessages_ids [of m ms w4] by blast
      then show "\<exists>k j. msg_id m = toString (clock w k) @ random w j"
        using w4 by auto
    qed
  qed
  have "messages (commit (fst (handleSendMessage fetch userContent s w)) s) =
          messages s @
          \<lparr>msg_id = toString (clock w (reads w)), content = userContent, role = User,
           agent = None, timestamp = clock w (Suc (reads w))\<rparr> # rs"
    unfolding rs_def w4_def w2_def by (rule successful_send_messages [OF assms])
  then show ?thesis
    using ids by auto
qed

lemma login_welcome_id:
  assumes "fst (callChatAPI fetch [] [] (Some accNumber) w) = Returned (Some data)"
  shows "\<exists>k m. reads w \<le> k \<and>
           messages (commit (fst (handleLogin fetch accNumber custInfo w)) s) = [m] \<and>
           msg_id m = toString (clock w k) \<and>
           content m = welcome_text (name (customer custInfo)) \<and>
           role m = Assistant \<and> agent m = Some ''Triage Agent''"
proof -
  define w2 where "w2 = snd (stamp (nullish_else (data_events data) []) w)"
  define w3 where
    "w3 = (case data_messages data of None \<Rightarrow> w2 | Some ms \<Rightarrow> snd (toMessages ms w2))"
  have world: "clock w3 = clock w \<and> reads w \<le> reads w3"
    unfolding w3_def w2_def using login_welcome_world [of data w] by blast
  have "messages (commit (fst (handleLogin fetch accNumber custInfo w)) s) =
          [\<lparr>msg_id = toString (clock w3 (reads w3)),
            content = welcome_text (name (customer custInfo)), role = Assistant,
            agent = Some ''Triage Agent'', timestamp = clock w3 (Suc (reads w3))\<rparr>]"
    unfolding w3_def w2_def
    using login_success_setters [OF assms, of custInfo]
    by (simp split: option.split)
  then show ?thesis
    using world by auto
qed

text \<open>
  Claim C8, as the code has it. Only the assistant messages made from a response get an
  id that is a reading of the clock followed by a random suffix. The user's message,
  the fallback message of a failed send and the welcome message of a login get the
  decimal reading of the clock alone; since the decimal text determines the reading,
  two such ids differ exactly when the two readings differ.
\<close>

theorem C8_message_ids:
  "(fst (callChatAPI fetch userContent (nullish_else (conversationId s) [])
           (Some (accountNumber s)) w) = Returned None \<longrightarrow>
      (\<exists>u m. messages (commit (fst (handleSendMessage fetch userContent s w)) s) =
                 messages s @ [u, m] \<and>
               msg_id u = toString (clock w (reads w)) \<and>
               msg_id m = toString (clock w (reads w + 2)))) \<and>
   (fst (callChatAPI fetch userContent (nullish_else (conversationId s) [])
           (Some (accountNumber s)) w) = Returned (Some data) \<longrightarrow>
      (\<exists>u rs. messages (commit (fst (handleSendMessage fetch userContent s w)) s) =
                  messages s @ u # rs \<and>
                msg_id u = toString (clock w (reads w)) \<and>
                (\<forall>m\<in>set rs. \<exists>k j. msg_id m = toString (clock w k) @ random w j))) \<and>
   (fst (callChatAPI fetch [] [] (Some accNumber) w) = Returned (Some data) \<longrightarrow>
      (\<exists>k m. messages (commit (fst (handleLogin fetch accNumber custInfo w)) s) = [m] \<and>
             msg_id m = toString (clock w k))) \<and>
   ((toString a = toString b) = (a = b))"
proof (intro conjI impI)
  assume "fst (callChatAPI fetch userContent (nullish_else (conversationId s) [])
           (Some (accountNumber s)) w) = Returned None"
  then show "\<exists>u m. messages (commit (fst (handleSendMessage fetch userContent s w)) s) =
                 messages s @ [u, m] \<and>
               msg_id u = toString (clock w (reads w)) \<and>
               msg_id m = toString (clock w (reads w + 2))"
    by (rule failed_send_ids)
next
  assume "fst (callChatAPI fetch userContent (nullish_else (conversationId s) [])
           (Some (accountNumber s)) w) = Returned (Some data)"
  then show "\<exists>u rs. messages (commit (fst (handleSendMessage fetch userContent s w)) s) =
                  messages s @ u # rs \<and>
                msg_id u = toString (clock w (reads w)) \<and>
                (\<forall>m\<in>set rs. \<exists>k j. msg_id m = toString (clock w k) @ random w j)"
    by (rule successful_send_ids)
next
  assume "fst (callChatAPI fetch [] [] (Some accNumber) w) = Returned (Some data)"
  then show "\<exists>k m. messages (commit (fst (handleLogin fetch accNumber custInfo w)) s) = [m] \<and>
             msg_id m = toString (clock w k)"
    using login_welcome_id [of fetch accNumber w data custInfo s] by blast
next
  show "(toString a = toString b) = (a = b)"
    using toString_inj [of a b] by blast
qed

theorem C8_message_ids_witness:
  "(\<exists>u m. messages (commit (fst (handleSendMessage (\<lambda>r. NetworkFailure ''offline'')
                ''Change my seat'' session0 ticking_world)) session0) =
              messages session0 @ [u, m] \<and>
            msg_id u = toString (clock ticking_world (reads ticking_world)) \<and>
            msg_id m = toString (clock ticking_world (reads ticking_world + 2))) \<and>
   (\<exists>u rs. messages (commit (fst (handleSendMessage (\<lambda>r. Response 200 (Parsed (Some reply_bare)))
                ''I want to change my seat'' session0 ticking_world)) session0) =
              messages session0 @ u # rs \<and>
            msg_id u = toString (clock ticking_world (reads ticking_world)) \<and>
            (\<forall>m\<in>set rs. \<exists>k j. msg_id m =
                toString (clock ticking_world k) @ random ticking_world j)) \<and>
   (\<exists>k m. messages (commit (fst (handleLogin (\<lambda>r. Response 200 (Parsed (Some reply_bare)))
                ''CUST001'' alice ticking_world)) session0) = [m] \<and>
          msg_id m = toString (clock ticking_world k))"
  using
    C8_message_ids
      [of "\<lambda>r. NetworkFailure ''offline''" "''Change my seat''" session0 ticking_world
          reply_bare "''CUST001''" alice 0 0]
    C8_message_ids
      [of "\<lambda>r. Response 200 (Parsed (Some reply_bare))" "''I want to change my seat''"
          session0 ticking_world reply_bare "''CUST001''" alice 0 0]
  by (simp add: callChatAPI_def ok_def)

text \<open>
  The claim as the specification words it fails: when a send fails within one
  millisecond, the user's message and the fallback message get the same id.
\<close>

theorem C8_same_millisecond_same_id:
  "\<not> distinct (map msg_id (messages (commit (fst (handleSendMessage
        (\<lambda>r. NetworkFailure ''offline'') ''Change my seat'' session0 frozen_world)) session0)))"
  by (simp add: handleSendMessage_def callChatAPI_def Date_now_def new_Date_def
      console_error_def Let_def nullish_else_def session0_def frozen_world_def)

section \<open>The login bootstrap\<close>

lemma toMessages_content:
  "map content (fst (toMessages ms w)) = map m_content ms \<and>
   map agent (fst (toMessages ms w)) = map m_agent ms \<and>
   list_all (\<lambda>m. role m = Assistant) (fst (toMessages ms w))"
  by (induction ms arbitrary: w)
     (simp_all add: Date_now_def new_Date_def Math_random_toString_def case_prod_beta Let_def)

text \<open>
  Claim C2, as the code has it. When the bootstrap call of a login returns data (the customer record
  \<^verbatim>\<open>custInfo\<close> being the one the lookup resolved), the last setter call of the handler
  stores a transcript of exactly one message, the welcome, whose content has the
  customer's name in it. The setter calls before it leave the messages of the response
  in the transcript when the response has a message list, so these are set and then
  overwritten. The conversation id afterwards is the id of the response, stored as it
  is: it is non-empty exactly when the id of the response is.
\<close>

theorem C2_login_welcome:
  assumes "fst (callChatAPI fetch [] [] (Some accNumber) w) = Returned (Some data)"
  shows "\<exists>before greeting.
           fst (handleLogin fetch accNumber custInfo w) = before @ [SetMessages [greeting]] \<and>
           (case data_messages data of
              None \<Rightarrow> messages (commit before s) = messages s
            | Some ms \<Rightarrow>
                map content (messages (commit before s)) = map m_content ms \<and>
                map agent (messages (commit before s)) = map m_agent ms) \<and>
           messages (commit (fst (handleLogin fetch accNumber custInfo w)) s) = [greeting] \<and>
           role greeting = Assistant \<and>
           agent greeting = Some ''Triage Agent'' \<and>
           content greeting =
             ''Welcome back, '' @ name (customer custInfo) @
             ''! I can help you with your bookings, flight status, seat changes, and more. How can I assist you today?'' \<and>
           sublist (name (customer custInfo)) (content greeting) \<and>
           conversationId (commit (fst (handleLogin fetch accNumber custInfo w)) s) =
             data_conversation_id data \<and>
           truthy (conversationId (commit (fst (handleLogin fetch accNumber custInfo w)) s)) =
             truthy (data_conversation_id data)"
proof -
  define w2 where "w2 = snd (stamp (nullish_else (data_events data) []) w)"
  define w3 where
    "w3 = (case data_messages data of None \<Rightarrow> w2 | Some ms \<Rightarrow> snd (toMessages ms w2))"
  define before where
    "before =
       [SetAccountNumber accNumber, SetCustomerInfo (Some custInfo), SetIsLoggedIn True,
        SetConversationId (data_conversation_id data),
        SetCurrentAgent (data_current_agent data),
        SetContext (data_context data),
        SetEvents (fst (stamp (nullish_else (data_events data) []) w)),
        SetAgents (nullish_else (data_agents data) []),
        SetGuardrails (nullish_else (data_guardrails data) [])] @
       (case data_messages data of
          None \<Rightarrow> []
        | Some ms \<Rightarrow> [SetMessages (fst (toMessages ms w2))])"
  define greeting where
    "greeting =
       \<lparr>msg_id = toString (clock w3 (reads w3)),
        content = welcome_text (name (customer custInfo)), role = Assistant,
        agent = Some ''Triage Agent'', timestamp = clock w3 (Suc (reads w3))\<rparr>"
  have ups: "fst (handleLogin fetch accNumber custInfo w) = before @ [SetMessages [greeting]]"
    unfolding before_def greeting_def w3_def w2_def
    by (rule login_success_setters [OF assms])
  have transient:
    "(case data_messages data of
        None \<Rightarrow> messages (commit before s) = messages s
      | Some ms \<Rightarrow>
          map content (messages (commit before s)) = map m_content ms \<and>
          map agent (messages (commit before s)) = map m_agent ms)"
  proof (cases "data_messages data")
    case None
    then show ?thesis by (simp add: before_def)
  next
    case (Some ms)
    then show ?thesis
      using toMessages_content [of ms w2] by (simp add: before_def)
  qed
  have final: "messages (commit (fst (handleLogin fetch accNumber custInfo w)) s) = [greeting]"
    by (simp add: ups)
  have cid: "conversationId (commit (fst (handleLogin fetch accNumber custInfo w)) s) =
               data_conversation_id data"
    by (cases "data_messages data") (simp_all add: ups before_def)
  have wording: "content greeting =
             ''Welcome back, '' @ name (customer custInfo) @
             ''! I can help you with your bookings, flight status, seat changes, and more. How can I assist you today?''"
    by (simp add: greeting_def welcome_text_def)
  have inside: "sublist (name (customer custInfo)) (content greeting)"
    unfolding wording by (rule sublist_appendI)
  have "role greeting = Assistant \<and> agent greeting = Some ''Triage Agent''"
    by (simp add: greeting_def)
  then show ?thesis
    using ups transient final cid wording inside by (intro exI [of _ before] exI [of _ greeting]) simp
qed

theorem C2_login_welcome_witness:
  "\<exists>before greeting.
     fst (handleLogin (\<lambda>r. Response 200 (Parsed (Some reply_bare))) ''CUST001'' alice
            ticking_world) = before @ [SetMessages [greeting]] \<and>
     (case data_messages reply_bare of
        None \<Rightarrow> messages (commit before (initial :: (string, string) home)) = messages (initial :: (string, string) home)
      | Some ms \<Rightarrow>
          map content (messages (commit before (initial :: (string, string) home))) = map m_content ms \<and>
          map agent (messages (commit before (initial :: (string, string) home))) = map m_agent ms) \<and>
     messages (commit (fst (handleLogin (\<lambda>r. Response 200 (Parsed (Some reply_bare))) ''CUST001''
            alice ticking_world)) initial) = [greeting] \<and>
     role greeting = Assistant \<and>
     agent greeting = Some ''Triage Agent'' \<and>
     content greeting =
       ''Welcome back, '' @ name (customer alice) @
       ''! I can help you with your bookings, flight status, seat changes, and more. How can I assist you today?'' \<and>
     sublist (name (customer alice)) (content greeting) \<and>
     conversationId (commit (fst (handleLogin (\<lambda>r. Response 200 (Parsed (Some reply_bare)))
            ''CUST001'' alice ticking_world)) (initial :: (string, string) home)) =
       data_conversation_id reply_bare \<and>
     truthy (conversationId (commit (fst (handleLogin (\<lambda>r. Response 200 (Parsed (Some reply_bare)))
            ''CUST001'' alice ticking_world)) (initial :: (string, string) home))) =
       truthy (data_conversation_id reply_bare)"
  by (rule C2_login_welcome) (simp add: callChatAPI_def ok_def)

text \<open>
  The claim as the specification words it fails: the handler stores the id of the
  response as it is, so a response without a conversation id leaves the session
  without one.
\<close>

theorem C2_login_without_conversation_id:
  "fst (callChatAPI (\<lambda>r. Response 200 (Parsed (Some reply_no_id))) [] [] (Some ''CUST001'')
          ticking_world) = Returned (Some reply_no_id) \<and>
   conversationId (commit (fst (handleLogin (\<lambda>r. Response 200 (Parsed (Some reply_no_id)))
       ''CUST001'' alice ticking_world)) (initial :: (string, string) home)) = None"
  by (simp add: handleLogin_def callChatAPI_def ok_def Date_now_def new_Date_def Let_def
      nullish_else_def reply_no_id_def ticking_world_def initial_def)

end
